theory Spec2Isabelle
  imports Main "HOL-Library.Sublist"
begin

section \<open>Condition assertion helpers (\<open>acktest/k8s/condition.py\<close>)\<close>

subsection \<open>Python values, dictionaries and exceptions\<close>

text \<open>
  The values a condition dictionary carries in the fields the module reads: a string, a
  native boolean, or \<open>None\<close>.
\<close>

datatype pyval = PyNone | PyStr string | PyBool bool

text \<open>Python's \<open>str(v)\<close>, also what an f-string writes for \<open>{v}\<close>.\<close>

fun py_str :: "pyval \<Rightarrow> string" where
  "py_str PyNone = ''None''"
| "py_str (PyStr s) = s"
| "py_str (PyBool b) = (if b then ''True'' else ''False'')"

text \<open>A condition is a dictionary with string keys.\<close>

type_synonym cond = "string \<rightharpoonup> pyval"

text \<open>\<open>d.get(k, default)\<close>.\<close>

definition dict_get :: "cond \<Rightarrow> string \<Rightarrow> pyval \<Rightarrow> pyval" where
  "dict_get d k dflt = (case d k of None \<Rightarrow> dflt | Some v \<Rightarrow> v)"

text \<open>
  What a call can raise: \<open>pytest.fail(msg)\<close>, or the interpreter's own \<open>TypeError\<close>
  (\<open>x in None\<close>) and \<open>AttributeError\<close> (\<open>None.get\<close>).
\<close>

datatype failure = PytestFail string | TypeError | AttributeError

text \<open>Python's substring test \<open>sub in s\<close> on two strings.\<close>

fun str_contains :: "string \<Rightarrow> string \<Rightarrow> bool" where
  "str_contains sub [] = (sub = [])"
| "str_contains sub (c # cs) = (prefix sub (c # cs) \<or> str_contains sub cs)"

text \<open>
  \<open>sub in v\<close> for a string \<open>sub\<close>: a substring test when \<open>v\<close> is a string; \<open>None\<close> and a
  boolean are not iterable, and the operator raises \<open>TypeError\<close>.
\<close>

fun py_in :: "string \<Rightarrow> pyval \<Rightarrow> failure + bool" where
  "py_in sub (PyStr s) = Inr (str_contains sub s)"
| "py_in sub PyNone = Inl TypeError"
| "py_in sub (PyBool b) = Inl TypeError"

subsection \<open>The resource accessor\<close>

text \<open>
  \<open>resource.get_resource_condition\<close> lives in another module and reads the live
  resource. It is a parameter here: its answer may depend on the reads made so far, so
  two reads of the same condition need not agree. The state a call threads is the log of
  the reads made, each a reference and a condition type.
\<close>

type_synonym 'r log = "('r \<times> string) list"

type_synonym 'r accessor = "'r log \<Rightarrow> 'r \<Rightarrow> string \<Rightarrow> cond option"

definition get_resource_condition ::
    "'r accessor \<Rightarrow> 'r \<Rightarrow> string \<Rightarrow> 'r log \<Rightarrow> cond option \<times> 'r log" where
  "get_resource_condition acc ref cond_type h = (acc h ref cond_type, h @ [(ref, cond_type)])"

subsection \<open>Constants\<close>

definition CONDITION_TYPE_READY :: string where
  "CONDITION_TYPE_READY = ''Ready''"

definition CONDITION_TYPE_RESOURCE_SYNCED :: string where
  "CONDITION_TYPE_RESOURCE_SYNCED = ''ACK.ResourceSynced''"

definition TERMINAL_REASON :: string where
  "TERMINAL_REASON = ''Terminal error, the custom resource Spec needs to be updated before any further sync can occur''"

subsection \<open>Failure messages\<close>

text \<open>The four f-strings of the module; \<open>str_ref\<close> is \<open>str(ref)\<close>.\<close>

definition not_found_msg :: "string \<Rightarrow> string \<Rightarrow> string" where
  "not_found_msg cond_type_match str_ref =
     ''Failed to find '' @ cond_type_match @ '' condition in resource '' @ str_ref"

definition status_mismatch_msg :: "string \<Rightarrow> bool \<Rightarrow> pyval \<Rightarrow> string" where
  "status_mismatch_msg cond_type_match cond_status_match cond_status =
     ''Expected '' @ cond_type_match @ '' condition to have status ''
       @ py_str (PyBool cond_status_match) @ '' but found '' @ py_str cond_status"

definition reason_mismatch_msg :: "pyval \<Rightarrow> string" where
  "reason_mismatch_msg reason =
     ''Expected Ready condition to have reason '' @ [CHR 0x27] @ TERMINAL_REASON @ [CHR 0x27]
       @ '' but found '' @ [CHR 0x27] @ py_str reason @ [CHR 0x27]"

definition message_mismatch_msg :: "string \<Rightarrow> pyval \<Rightarrow> string" where
  "message_mismatch_msg expected_message message =
     ''Expected Ready condition to have message containing '' @ [CHR 0x27] @ expected_message
       @ [CHR 0x27] @ '' but found '' @ [CHR 0x27] @ py_str message @ [CHR 0x27]"

subsection \<open>The assertions\<close>

text \<open>
  Each assertion takes the accessor, the rendering \<open>str(ref)\<close> of a reference, its own
  arguments and the log, and returns the outcome (\<open>Inr ()\<close> for a normal return, \<open>Inl\<close>
  for what was raised) with the log after the call.
\<close>

definition assert_type_status ::
    "'r accessor \<Rightarrow> ('r \<Rightarrow> string) \<Rightarrow> 'r \<Rightarrow> string \<Rightarrow> bool \<Rightarrow> 'r log \<Rightarrow> (failure + unit) \<times> 'r log" where
  "assert_type_status acc str_ref ref cond_type_match cond_status_match h =
     (case get_resource_condition acc ref cond_type_match h of
        (None, h') \<Rightarrow> (Inl (PytestFail (not_found_msg cond_type_match (str_ref ref))), h')
      | (Some cond, h') \<Rightarrow>
          (let cond_status = dict_get cond ''status'' PyNone in
           if py_str cond_status \<noteq> py_str (PyBool cond_status_match)
           then (Inl (PytestFail
                   (status_mismatch_msg cond_type_match cond_status_match cond_status)), h')
           else (Inr (), h')))"

definition assert_ready_status ::
    "'r accessor \<Rightarrow> ('r \<Rightarrow> string) \<Rightarrow> 'r \<Rightarrow> bool \<Rightarrow> 'r log \<Rightarrow> (failure + unit) \<times> 'r log" where
  "assert_ready_status acc str_ref ref cond_status_match h =
     assert_type_status acc str_ref ref ''Ready'' cond_status_match h"

definition assert_ready ::
    "'r accessor \<Rightarrow> ('r \<Rightarrow> string) \<Rightarrow> 'r \<Rightarrow> 'r log \<Rightarrow> (failure + unit) \<times> 'r log" where
  "assert_ready acc str_ref ref h = assert_ready_status acc str_ref ref True h"

definition assert_not_ready ::
    "'r accessor \<Rightarrow> ('r \<Rightarrow> string) \<Rightarrow> 'r \<Rightarrow> 'r log \<Rightarrow> (failure + unit) \<times> 'r log" where
  "assert_not_ready acc str_ref ref h = assert_ready_status acc str_ref ref False h"

definition assert_terminal ::
    "'r accessor \<Rightarrow> ('r \<Rightarrow> string) \<Rightarrow> 'r \<Rightarrow> string \<Rightarrow> 'r log \<Rightarrow> (failure + unit) \<times> 'r log" where
  "assert_terminal acc str_ref ref expected_message h =
     (case assert_type_status acc str_ref ref ''Ready'' False h of
        (Inl e, h1) \<Rightarrow> (Inl e, h1)
      | (Inr _, h1) \<Rightarrow>
          (case get_resource_condition acc ref ''Ready'' h1 of
             (None, h2) \<Rightarrow> (Inl AttributeError, h2)
           | (Some cond, h2) \<Rightarrow>
               (let reason = dict_get cond ''reason'' PyNone in
                if reason \<noteq> PyStr TERMINAL_REASON
                then (Inl (PytestFail (reason_mismatch_msg reason)), h2)
                else
                  (let message = dict_get cond ''message'' PyNone in
                   case py_in expected_message message of
                     Inl e \<Rightarrow> (Inl e, h2)
                   | Inr found \<Rightarrow>
                       if \<not> found
                       then (Inl (PytestFail
                               (message_mismatch_msg expected_message message)), h2)
                       else (Inr (), h2)))))"

text \<open>An accessor whose answer does not depend on the reads made before.\<close>

definition deterministic :: "'r accessor \<Rightarrow> bool" where
  "deterministic acc = (\<forall>h h'. acc h = acc h')"

subsection \<open>Sample accessors\<close>

text \<open>A dictionary literal \<open>{k1: v1, ...}\<close>.\<close>

definition cond_of :: "(string \<times> pyval) list \<Rightarrow> cond" where
  "cond_of kvs = map_of kvs"

text \<open>
  Modelled from the spec: \<open>resource.get_resource_condition\<close> over a resource whose
  status does not change, which returns the first condition of the resource whose
  \<open>type\<close> is the one asked for, or \<open>None\<close>.
\<close>

definition snapshot_accessor :: "cond list \<Rightarrow> 'r accessor" where
  "snapshot_accessor conds h ref cond_type =
     find (\<lambda>c. c ''type'' = Some (PyStr cond_type)) conds"

text \<open>
  An accessor over a resource that changes between reads: the \<open>n\<close>-th read is answered
  by the \<open>n\<close>-th entry of a script, and by \<open>None\<close> once the script is used up.
\<close>

definition scripted_accessor :: "cond option list \<Rightarrow> 'r accessor" where
  "scripted_accessor answers h ref cond_type =
     (if length h < length answers then answers ! length h else None)"

section \<open>Properties\<close>

subsection \<open>Basic facts\<close>

text \<open>The recursive substring test finds exactly the contiguous sublists.\<close>

lemma str_contains_sublist: "str_contains sub s = sublist sub s"
  by (induction s) (simp_all add: sublist_Cons_right)

text \<open>The two branches of \<open>assert_type_status\<close>, and the read it makes.\<close>

lemma assert_type_status_None:
  "acc h ref t = None \<Longrightarrow>
   assert_type_status acc sr ref t b h =
     (Inl (PytestFail (not_found_msg t (sr ref))), h @ [(ref, t)])"
  by (simp add: assert_type_status_def get_resource_condition_def)

lemma assert_type_status_Some:
  "acc h ref t = Some c \<Longrightarrow>
   assert_type_status acc sr ref t b h =
     (if py_str (dict_get c ''status'' PyNone) \<noteq> py_str (PyBool b)
      then Inl (PytestFail (status_mismatch_msg t b (dict_get c ''status'' PyNone)))
      else Inr (), h @ [(ref, t)])"
  by (simp add: assert_type_status_def get_resource_condition_def Let_def)

lemma snd_assert_type_status:
  "snd (assert_type_status acc sr ref t b h) = h @ [(ref, t)]"
  by (cases "acc h ref t") (simp_all add: assert_type_status_None assert_type_status_Some)

lemma assert_type_status_ok_iff:
  "fst (assert_type_status acc sr ref t b h) = Inr () \<longleftrightarrow>
   (\<exists>c. acc h ref t = Some c \<and> py_str (dict_get c ''status'' PyNone) = py_str (PyBool b))"
  by (cases "acc h ref t") (simp_all add: assert_type_status_None assert_type_status_Some)

text \<open>
  \<open>assert_terminal\<close> stops at a failure of its status check; past it, the outcome is
  decided by the second read.
\<close>

lemma assert_terminal_first_fails:
  "fst (assert_type_status acc sr ref ''Ready'' False h) = Inl e \<Longrightarrow>
   assert_terminal acc sr ref s h = (Inl e, h @ [(ref, ''Ready'')])"
  using snd_assert_type_status [of acc sr ref "''Ready''" False h]
  by (cases "assert_type_status acc sr ref ''Ready'' False h")
     (simp add: assert_terminal_def)

lemma assert_terminal_second_read:
  "fst (assert_type_status acc sr ref ''Ready'' False h) = Inr () \<Longrightarrow>
   assert_terminal acc sr ref s h =
     (case acc (h @ [(ref, ''Ready'')]) ref ''Ready'' of
        None \<Rightarrow> Inl AttributeError
      | Some c \<Rightarrow>
          if dict_get c ''reason'' PyNone \<noteq> PyStr TERMINAL_REASON
          then Inl (PytestFail (reason_mismatch_msg (dict_get c ''reason'' PyNone)))
          else (case py_in s (dict_get c ''message'' PyNone) of
                  Inl e \<Rightarrow> Inl e
                | Inr found \<Rightarrow>
                    if \<not> found
                    then Inl (PytestFail (message_mismatch_msg s (dict_get c ''message'' PyNone)))
                    else Inr ()),
      h @ [(ref, ''Ready''), (ref, ''Ready'')])"
  using snd_assert_type_status [of acc sr ref "''Ready''" False h]
  by (cases "assert_type_status acc sr ref ''Ready'' False h")
     (simp add: assert_terminal_def get_resource_condition_def Let_def
        split: option.splits sum.splits)

text \<open>What each failure message contains.\<close>

lemma not_found_msg_parts:
  "sublist t (not_found_msg t r) \<and> sublist r (not_found_msg t r)"
  by (simp add: not_found_msg_def sublist_append sublist_Cons_right)

lemma status_mismatch_msg_parts:
  "sublist (py_str (PyBool b)) (status_mismatch_msg t b st) \<and>
   sublist (py_str st) (status_mismatch_msg t b st)"
  by (simp add: status_mismatch_msg_def sublist_append sublist_Cons_right)

lemma reason_mismatch_msg_parts:
  "sublist TERMINAL_REASON (reason_mismatch_msg r) \<and>
   sublist (py_str r) (reason_mismatch_msg r)"
  by (simp add: reason_mismatch_msg_def sublist_append sublist_Cons_right)

lemma message_mismatch_msg_parts:
  "sublist e (message_mismatch_msg e m) \<and> sublist (py_str m) (message_mismatch_msg e m)"
  by (simp add: message_mismatch_msg_def sublist_append sublist_Cons_right)

text \<open>A resource whose status does not change answers every read alike.\<close>

lemma snapshot_accessor_deterministic: "deterministic (snapshot_accessor conds)"
  by (simp add: deterministic_def snapshot_accessor_def fun_eq_iff)

subsection \<open>\<open>assert_type_status\<close>\<close>

text \<open>
  C3. When the accessor returns for the type \<open>t\<close> a condition whose \<open>status\<close> is the
  string \<open>str(b)\<close>, \<open>assert_type_status\<close> on \<open>t\<close> and \<open>b\<close> returns normally, and on \<open>t\<close>
  and \<open>not b\<close> it fails with the status mismatch message.
\<close>

theorem status_matches_expected:
  assumes "acc h ref t = Some c"
    and "c ''status'' = Some (PyStr (py_str (PyBool b)))"
  shows "assert_type_status acc sr ref t b h = (Inr (), h @ [(ref, t)]) \<and>
         assert_type_status acc sr ref t (\<not> b) h =
           (Inl (PytestFail (status_mismatch_msg t (\<not> b) (PyStr (py_str (PyBool b))))),
            h @ [(ref, t)])"
  using assms by (simp add: assert_type_status_Some dict_get_def)

theorem status_matches_expected_witness:
  "assert_type_status
     (snapshot_accessor [cond_of [(''type'', PyStr ''ACK.ResourceSynced''), (''status'', PyStr ''True'')]])
     id ''my-db'' ''ACK.ResourceSynced'' True []
   = (Inr (), [(''my-db'', ''ACK.ResourceSynced'')]) \<and>
   assert_type_status
     (snapshot_accessor [cond_of [(''type'', PyStr ''ACK.ResourceSynced''), (''status'', PyStr ''True'')]])
     id ''my-db'' ''ACK.ResourceSynced'' False []
   = (Inl (PytestFail ''Expected ACK.ResourceSynced condition to have status False but found True''),
      [(''my-db'', ''ACK.ResourceSynced'')])"
proof -
  let ?c = "cond_of [(''type'', PyStr ''ACK.ResourceSynced''), (''status'', PyStr ''True'')]"
  have found: "snapshot_accessor [?c] [] ''my-db'' ''ACK.ResourceSynced'' = Some ?c"
    by (simp add: snapshot_accessor_def cond_of_def)
  have status: "?c ''status'' = Some (PyStr (py_str (PyBool True)))"
    by (simp add: cond_of_def)
  show ?thesis
    using status_matches_expected
        [where acc = "snapshot_accessor [?c]" and h = "[]" and ref = "''my-db''"
           and t = "''ACK.ResourceSynced''" and sr = id, OF found status]
    by (simp add: status_mismatch_msg_def)
qed

text \<open>
  C4. When the accessor returns \<open>None\<close> for the type \<open>t\<close>, \<open>assert_type_status\<close> fails
  with the not-found message, whatever status is expected; the message contains \<open>t\<close> and
  \<open>str(ref)\<close>, and the failure is not the one of the status comparison.
\<close>

theorem absent_condition_not_found:
  assumes "acc h ref t = None"
  shows "assert_type_status acc sr ref t expected h =
           (Inl (PytestFail (not_found_msg t (sr ref))), h @ [(ref, t)]) \<and>
         sublist t (not_found_msg t (sr ref)) \<and>
         sublist (sr ref) (not_found_msg t (sr ref)) \<and>
         fst (assert_type_status acc sr ref t expected h)
           \<noteq> Inl (PytestFail (status_mismatch_msg t expected st))"
proof -
  have outcome: "assert_type_status acc sr ref t expected h =
      (Inl (PytestFail (not_found_msg t (sr ref))), h @ [(ref, t)])"
    using assms by (rule assert_type_status_None)
  have differ: "not_found_msg t (sr ref) \<noteq> status_mismatch_msg t expected st"
    by (simp add: not_found_msg_def status_mismatch_msg_def)
  show ?thesis
    using outcome differ not_found_msg_parts [of t "sr ref"] by simp
qed

theorem absent_condition_not_found_witness:
  "assert_type_status (snapshot_accessor []) id ''my-db'' ''Ready'' True []
   = (Inl (PytestFail ''Failed to find Ready condition in resource my-db''),
      [(''my-db'', ''Ready'')])"
proof -
  have absent: "snapshot_accessor [] [] ''my-db'' ''Ready'' = None"
    by (simp add: snapshot_accessor_def)
  show ?thesis
    using absent_condition_not_found
        [where acc = "snapshot_accessor []" and h = "[]" and ref = "''my-db''"
           and t = "''Ready''" and sr = id and expected = True, OF absent]
    by (simp add: not_found_msg_def)
qed

text \<open>
  C7. The status is compared as a string. Expecting \<open>True\<close>, the call returns normally
  on the status \<open>"True"\<close> and fails with a status mismatch on \<open>"False"\<close> and on a condition
  without a \<open>status\<close> field; on \<open>"Unknown"\<close> it fails with a status mismatch whichever
  status is expected. A status mismatch message is never the not-found message.
\<close>

theorem status_compared_as_string:
  assumes "accT hT ref t = Some cT" and "cT ''status'' = Some (PyStr ''True'')"
    and "accF hF ref t = Some cF" and "cF ''status'' = Some (PyStr ''False'')"
    and "accU hU ref t = Some cU" and "cU ''status'' = Some (PyStr ''Unknown'')"
    and "accA hA ref t = Some cA" and "cA ''status'' = None"
  shows "fst (assert_type_status accT sr ref t True hT) = Inr () \<and>
         fst (assert_type_status accF sr ref t True hF) =
           Inl (PytestFail (status_mismatch_msg t True (PyStr ''False''))) \<and>
         fst (assert_type_status accU sr ref t b hU) =
           Inl (PytestFail (status_mismatch_msg t b (PyStr ''Unknown''))) \<and>
         fst (assert_type_status accA sr ref t True hA) =
           Inl (PytestFail (status_mismatch_msg t True PyNone)) \<and>
         status_mismatch_msg t b st \<noteq> not_found_msg t (sr ref)"
proof -
  have differ: "status_mismatch_msg t b st \<noteq> not_found_msg t (sr ref)"
    by (simp add: not_found_msg_def status_mismatch_msg_def)
  show ?thesis
    using assms differ by (simp add: assert_type_status_Some dict_get_def)
qed

theorem status_compared_as_string_witness:
  "fst (assert_type_status
          (snapshot_accessor [cond_of [(''type'', PyStr ''Ready''), (''status'', PyStr ''True'')]])
          id ''my-db'' ''Ready'' True []) = Inr () \<and>
   fst (assert_type_status
          (snapshot_accessor [cond_of [(''type'', PyStr ''Ready''), (''status'', PyStr ''False'')]])
          id ''my-db'' ''Ready'' True []) =
     Inl (PytestFail ''Expected Ready condition to have status True but found False'') \<and>
   fst (assert_type_status
          (snapshot_accessor [cond_of [(''type'', PyStr ''Ready''), (''status'', PyStr ''Unknown'')]])
          id ''my-db'' ''Ready'' False []) =
     Inl (PytestFail ''Expected Ready condition to have status False but found Unknown'') \<and>
   fst (assert_type_status
          (snapshot_accessor [cond_of [(''type'', PyStr ''Ready'')]])
          id ''my-db'' ''Ready'' True []) =
     Inl (PytestFail ''Expected Ready condition to have status True but found None'')"
proof -
  let ?cT = "cond_of [(''type'', PyStr ''Ready''), (''status'', PyStr ''True'')]"
  let ?cF = "cond_of [(''type'', PyStr ''Ready''), (''status'', PyStr ''False'')]"
  let ?cU = "cond_of [(''type'', PyStr ''Ready''), (''status'', PyStr ''Unknown'')]"
  let ?cA = "cond_of [(''type'', PyStr ''Ready'')]"
  have aT: "snapshot_accessor [?cT] [] ''my-db'' ''Ready'' = Some ?cT"
    and aF: "snapshot_accessor [?cF] [] ''my-db'' ''Ready'' = Some ?cF"
    and aU: "snapshot_accessor [?cU] [] ''my-db'' ''Ready'' = Some ?cU"
    and aA: "snapshot_accessor [?cA] [] ''my-db'' ''Ready'' = Some ?cA"
    by (simp_all add: snapshot_accessor_def cond_of_def)
  have sT: "?cT ''status'' = Some (PyStr ''True'')"
    and sF: "?cF ''status'' = Some (PyStr ''False'')"
    and sU: "?cU ''status'' = Some (PyStr ''Unknown'')"
    and sA: "?cA ''status'' = None"
    by (simp_all add: cond_of_def)
  show ?thesis
    using status_compared_as_string
      [where accT = "snapshot_accessor [?cT]" and hT = "[]" and cT = ?cT
         and accF = "snapshot_accessor [?cF]" and hF = "[]" and cF = ?cF
         and accU = "snapshot_accessor [?cU]" and hU = "[]" and cU = ?cU
         and accA = "snapshot_accessor [?cA]" and hA = "[]" and cA = ?cA
         and ref = "''my-db''" and t = "''Ready''" and sr = id and b = False,
       OF aT sT aF sF aU sU aA sA]
    by (simp add: status_mismatch_msg_def)
qed

subsection \<open>The Ready shorthands\<close>

text \<open>
  C5. \<open>assert_ready\<close> has the outcome of \<open>assert_type_status\<close> on \<open>Ready\<close> and \<open>True\<close>,
  \<open>assert_not_ready\<close> that of \<open>assert_type_status\<close> on \<open>Ready\<close> and \<open>False\<close>, and
  \<open>assert_ready_status\<close> that of \<open>assert_type_status\<close> on \<open>Ready\<close> and the status given:
  the same result and the same reads.
\<close>

theorem ready_shorthands_delegate:
  "assert_ready acc sr ref h = assert_type_status acc sr ref ''Ready'' True h \<and>
   assert_not_ready acc sr ref h = assert_type_status acc sr ref ''Ready'' False h \<and>
   assert_ready_status acc sr ref b h = assert_type_status acc sr ref ''Ready'' b h"
  by (simp add: assert_ready_def assert_not_ready_def assert_ready_status_def)

subsection \<open>\<open>assert_terminal\<close>\<close>

text \<open>
  With an accessor that answers every read alike, \<open>assert_terminal\<close> returns normally
  exactly when the \<open>Ready\<close> condition exists, its status reads \<open>False\<close>, its reason is the
  terminal reason, and its message is a string containing the expected one.
\<close>

lemma assert_terminal_returns_iff:
  assumes "deterministic acc"
  shows "fst (assert_terminal acc sr ref s h) = Inr () \<longleftrightarrow>
    (\<exists>c m. acc h ref ''Ready'' = Some c \<and>
       py_str (dict_get c ''status'' PyNone) = ''False'' \<and>
       dict_get c ''reason'' PyNone = PyStr TERMINAL_REASON \<and>
       dict_get c ''message'' PyNone = PyStr m \<and> sublist s m)"
proof -
  have same: "acc (h @ [(ref, ''Ready'')]) = acc h"
    using assms by (simp add: deterministic_def)
  show ?thesis
  proof (cases "fst (assert_type_status acc sr ref ''Ready'' False h)")
    case (Inl e)
    then have "\<not> (\<exists>c. acc h ref ''Ready'' = Some c \<and>
        py_str (dict_get c ''status'' PyNone) = py_str (PyBool False))"
      using assert_type_status_ok_iff [of acc sr ref "''Ready''" False h] by simp
    with Inl show ?thesis
      by (auto simp: assert_terminal_first_fails)
  next
    case (Inr u)
    then have ok: "fst (assert_type_status acc sr ref ''Ready'' False h) = Inr ()" by simp
    then obtain c where c: "acc h ref ''Ready'' = Some c"
        "py_str (dict_get c ''status'' PyNone) = ''False''"
      using assert_type_status_ok_iff [of acc sr ref "''Ready''" False h] by auto
    show ?thesis
      using c same
      by (cases "dict_get c ''message'' PyNone")
         (auto simp: assert_terminal_second_read [OF ok] str_contains_sublist)
  qed
qed

text \<open>
  Past the status and reason checks, a condition without a \<open>message\<close> field makes the
  call raise \<open>TypeError\<close>, whatever message is expected.
\<close>

lemma assert_terminal_missing_message:
  assumes "fst (assert_type_status acc sr ref ''Ready'' False h) = Inr ()"
    and "acc (h @ [(ref, ''Ready'')]) ref ''Ready'' = Some c"
    and "dict_get c ''reason'' PyNone = PyStr TERMINAL_REASON"
    and "c ''message'' = None"
  shows "assert_terminal acc sr ref s h =
           (Inl TypeError, h @ [(ref, ''Ready''), (ref, ''Ready'')])"
  using assms(2,3,4) by (simp add: assert_terminal_second_read [OF assms(1)] dict_get_def)

text \<open>
  C1. A \<open>Ready\<close> condition with status \<open>False\<close> and the terminal reason but no
  \<open>message\<close> field: the specification has \<open>assert_terminal\<close> signal a message mismatch.
  The code evaluates \<open>expected_message not in None\<close>, which raises \<open>TypeError\<close>: no
  \<open>pytest.fail\<close> is reached.
\<close>

theorem assert_terminal_missing_message_raises_TypeError:
  "assert_terminal
     (snapshot_accessor
        [cond_of [(''type'', PyStr ''Ready''), (''status'', PyStr ''False''),
                  (''reason'', PyStr TERMINAL_REASON)]])
     id ''my-db'' ''foo'' []
   = (Inl TypeError, [(''my-db'', ''Ready''), (''my-db'', ''Ready'')])"
  by (simp add: assert_terminal_def assert_type_status_def get_resource_condition_def
      snapshot_accessor_def cond_of_def dict_get_def TERMINAL_REASON_def)

text \<open>
  C2. \<open>assert_terminal\<close> is to return normally exactly when status, reason and message
  are as expected, and to signal a test failure otherwise. The first half is
  \<open>assert_terminal_returns_iff\<close>. The second half fails on a condition whose message is
  missing: here the status is the native boolean \<open>False\<close> and the reason is the terminal
  one, the message fact does not hold, and the call ends in \<open>TypeError\<close>, not in
  \<open>pytest.fail\<close>.
\<close>

theorem assert_terminal_no_failure_signal_without_message:
  "fst (assert_terminal
          (snapshot_accessor
             [cond_of [(''type'', PyStr ''ACK.ResourceSynced''), (''status'', PyStr ''False'')],
              cond_of [(''type'', PyStr ''Ready''), (''status'', PyBool False),
                       (''reason'', PyStr TERMINAL_REASON)]])
          id ''my-bucket'' ''immutable'' [])
   = Inl TypeError"
  by (simp add: assert_terminal_def assert_type_status_def get_resource_condition_def
      snapshot_accessor_def cond_of_def dict_get_def TERMINAL_REASON_def)

text \<open>
  C9. The second fetch of \<open>assert_terminal\<close> is used without a check for \<open>None\<close>. With
  an accessor that answers every read alike, the call never raises \<open>AttributeError\<close>, and
  once the status check has passed the second fetch returns a condition.
\<close>

theorem second_fetch_present:
  assumes "deterministic acc"
  shows "fst (assert_terminal acc sr ref s h) \<noteq> Inl AttributeError \<and>
         (fst (assert_type_status acc sr ref ''Ready'' False h) = Inr () \<longrightarrow>
            (\<exists>c. fst (get_resource_condition acc ref ''Ready''
                         (snd (assert_type_status acc sr ref ''Ready'' False h))) = Some c))"
proof -
  have same: "acc (h @ [(ref, ''Ready'')]) = acc h"
    using assms by (simp add: deterministic_def)
  have present: "\<exists>c. acc (h @ [(ref, ''Ready'')]) ref ''Ready'' = Some c"
    if ok: "fst (assert_type_status acc sr ref ''Ready'' False h) = Inr ()"
    using ok same assert_type_status_ok_iff [of acc sr ref "''Ready''" False h] by auto
  have no_crash: "fst (assert_terminal acc sr ref s h) \<noteq> Inl AttributeError"
  proof (cases "fst (assert_type_status acc sr ref ''Ready'' False h)")
    case (Inl e)
    then have "e \<noteq> AttributeError"
      by (cases "acc h ref ''Ready''")
         (auto simp: assert_type_status_None assert_type_status_Some split: if_splits)
    with Inl show ?thesis by (simp add: assert_terminal_first_fails)
  next
    case (Inr u)
    then have ok: "fst (assert_type_status acc sr ref ''Ready'' False h) = Inr ()" by simp
    from present [OF ok] obtain c where c: "acc (h @ [(ref, ''Ready'')]) ref ''Ready'' = Some c" ..
    show ?thesis
      by (cases "dict_get c ''message'' PyNone")
         (simp_all add: assert_terminal_second_read [OF ok] c)
  qed
  show ?thesis
    using no_crash present
    by (simp add: get_resource_condition_def snd_assert_type_status)
qed

theorem second_fetch_present_witness:
  "deterministic (snapshot_accessor
       [cond_of [(''type'', PyStr ''Ready''), (''status'', PyStr ''False'')]] :: string accessor) \<and>
   fst (assert_type_status
          (snapshot_accessor [cond_of [(''type'', PyStr ''Ready''), (''status'', PyStr ''False'')]])
          id ''my-db'' ''Ready'' False []) = Inr () \<and>
   fst (assert_terminal
          (snapshot_accessor [cond_of [(''type'', PyStr ''Ready''), (''status'', PyStr ''False'')]])
          id ''my-db'' ''foo'' []) \<noteq> Inl AttributeError \<and>
   fst (get_resource_condition
          (snapshot_accessor [cond_of [(''type'', PyStr ''Ready''), (''status'', PyStr ''False'')]])
          ''my-db'' ''Ready'' [(''my-db'', ''Ready'')]) \<noteq> None"
proof -
  let ?c = "cond_of [(''type'', PyStr ''Ready''), (''status'', PyStr ''False'')]"
  let ?acc = "snapshot_accessor [?c] :: string accessor"
  have det: "deterministic ?acc"
    by (rule snapshot_accessor_deterministic)
  have ok: "fst (assert_type_status ?acc id ''my-db'' ''Ready'' False []) = Inr ()"
    by (simp add: assert_type_status_def get_resource_condition_def snapshot_accessor_def
        cond_of_def dict_get_def)
  have log: "snd (assert_type_status ?acc id ''my-db'' ''Ready'' False []) = [(''my-db'', ''Ready'')]"
    by (simp add: snd_assert_type_status)
  show ?thesis
    using det ok
      second_fetch_present
        [where acc = ?acc and sr = id and ref = "''my-db''" and s = "''foo''" and h = "[]", OF det]
    by (auto simp: log)
qed

text \<open>
  The hypothesis is needed: when the condition disappears between the two reads, the
  second fetch is \<open>None\<close> and \<open>cond.get\<close> raises \<open>AttributeError\<close>.
\<close>

lemma changing_resource_AttributeError:
  "assert_terminal
     (scripted_accessor
        [Some (cond_of [(''type'', PyStr ''Ready''), (''status'', PyStr ''False'')]), None])
     id ''my-db'' ''foo'' []
   = (Inl AttributeError, [(''my-db'', ''Ready''), (''my-db'', ''Ready'')])"
  by (simp add: assert_terminal_def assert_type_status_def get_resource_condition_def
      scripted_accessor_def cond_of_def dict_get_def)

text \<open>
  C10. When the status check has passed and the condition fetched again has no \<open>reason\<close>
  field, \<open>assert_terminal\<close> fails with the reason mismatch message for \<open>None\<close>, after two
  reads; the message check is not reached, whatever the \<open>message\<close> field is.
\<close>

theorem missing_reason_is_reason_mismatch:
  assumes "fst (assert_type_status acc sr ref ''Ready'' False h) = Inr ()"
    and "acc (h @ [(ref, ''Ready'')]) ref ''Ready'' = Some c"
    and "c ''reason'' = None"
  shows "assert_terminal acc sr ref s h =
           (Inl (PytestFail (reason_mismatch_msg PyNone)), h @ [(ref, ''Ready''), (ref, ''Ready'')])"
  using assms(2,3) by (simp add: assert_terminal_second_read [OF assms(1)] dict_get_def)

theorem missing_reason_is_reason_mismatch_witness:
  "assert_terminal
     (snapshot_accessor [cond_of [(''type'', PyStr ''Ready''), (''status'', PyStr ''False'')]])
     id ''my-db'' ''foo'' []
   = (Inl (PytestFail
        (''Expected Ready condition to have reason '' @ [CHR 0x27] @ TERMINAL_REASON @ [CHR 0x27]
           @ '' but found '' @ [CHR 0x27] @ ''None'' @ [CHR 0x27])),
      [(''my-db'', ''Ready''), (''my-db'', ''Ready'')])"
proof -
  let ?c = "cond_of [(''type'', PyStr ''Ready''), (''status'', PyStr ''False'')]"
  let ?acc = "snapshot_accessor [?c] :: string accessor"
  have ok: "fst (assert_type_status ?acc id ''my-db'' ''Ready'' False []) = Inr ()"
    by (simp add: assert_type_status_def get_resource_condition_def snapshot_accessor_def
        cond_of_def dict_get_def)
  have again: "?acc ([] @ [(''my-db'', ''Ready'')]) ''my-db'' ''Ready'' = Some ?c"
    by (simp add: snapshot_accessor_def cond_of_def)
  have no_reason: "?c ''reason'' = None"
    by (simp add: cond_of_def)
  show ?thesis
    using missing_reason_is_reason_mismatch
      [where acc = ?acc and sr = id and ref = "''my-db''" and h = "[]" and c = ?c
         and s = "''foo''", OF ok again no_reason]
    by (simp add: reason_mismatch_msg_def)
qed

subsection \<open>Failure messages\<close>

text \<open>
  C6, as stated: every failure message includes the expected value, the actual value and
  \<open>str(ref)\<close>. For the reference rendered as \<open>my-db\<close> and a \<open>Ready\<close> condition of status
  \<open>False\<close> where \<open>True\<close> is expected, the call fails with a status mismatch message in
  which \<open>my-db\<close> does not occur.
\<close>

theorem status_mismatch_message_omits_reference:
  "assert_type_status
     (snapshot_accessor [cond_of [(''type'', PyStr ''Ready''), (''status'', PyStr ''False'')]])
     id ''my-db'' ''Ready'' True []
   = (Inl (PytestFail ''Expected Ready condition to have status True but found False''),
      [(''my-db'', ''Ready'')]) \<and>
   \<not> sublist (id ''my-db'') ''Expected Ready condition to have status True but found False''"
  by (simp add: assert_type_status_def get_resource_condition_def snapshot_accessor_def
      cond_of_def dict_get_def status_mismatch_msg_def str_contains_sublist [symmetric])

text \<open>
  C6, amended. Whenever \<open>assert_type_status\<close> fails through \<open>pytest.fail\<close>, either the
  condition is absent and the message contains the condition type and \<open>str(ref)\<close>, or the
  status differs and the message contains the expected and the actual status. Whenever
  \<open>assert_terminal\<close> fails through \<open>pytest.fail\<close>, either its status check has failed with
  that very message, or the reason differs and the message contains the terminal reason
  and the actual reason, or the message lacks the expected substring and the failure
  message contains the expected substring and the actual message. Nothing is stated
  about \<open>str(ref)\<close> in the three mismatch messages.
\<close>

theorem failure_message_contents:
  "(fst (assert_type_status acc sr ref t b h) = Inl (PytestFail msg1) \<longrightarrow>
      (acc h ref t = None \<and> sublist t msg1 \<and> sublist (sr ref) msg1) \<or>
      (\<exists>c. acc h ref t = Some c \<and>
           py_str (dict_get c ''status'' PyNone) \<noteq> py_str (PyBool b) \<and>
           sublist (py_str (PyBool b)) msg1 \<and>
           sublist (py_str (dict_get c ''status'' PyNone)) msg1)) \<and>
   (fst (assert_terminal acc sr ref s h) = Inl (PytestFail msg2) \<longrightarrow>
      fst (assert_type_status acc sr ref ''Ready'' False h) = Inl (PytestFail msg2) \<or>
      (\<exists>c. fst (assert_type_status acc sr ref ''Ready'' False h) = Inr () \<and>
           acc (h @ [(ref, ''Ready'')]) ref ''Ready'' = Some c \<and>
           dict_get c ''reason'' PyNone \<noteq> PyStr TERMINAL_REASON \<and>
           sublist TERMINAL_REASON msg2 \<and>
           sublist (py_str (dict_get c ''reason'' PyNone)) msg2) \<or>
      (\<exists>c m. fst (assert_type_status acc sr ref ''Ready'' False h) = Inr () \<and>
           acc (h @ [(ref, ''Ready'')]) ref ''Ready'' = Some c \<and>
           dict_get c ''reason'' PyNone = PyStr TERMINAL_REASON \<and>
           dict_get c ''message'' PyNone = PyStr m \<and> \<not> sublist s m \<and>
           sublist s msg2 \<and> sublist m msg2))"
proof -
  have type_status: "(acc h ref t = None \<and> sublist t msg1 \<and> sublist (sr ref) msg1) \<or>
      (\<exists>c. acc h ref t = Some c \<and>
           py_str (dict_get c ''status'' PyNone) \<noteq> py_str (PyBool b) \<and>
           sublist (py_str (PyBool b)) msg1 \<and>
           sublist (py_str (dict_get c ''status'' PyNone)) msg1)"
    if fails: "fst (assert_type_status acc sr ref t b h) = Inl (PytestFail msg1)"
  proof (cases "acc h ref t")
    case None
    with fails have "msg1 = not_found_msg t (sr ref)"
      by (simp add: assert_type_status_None)
    with None show ?thesis
      using not_found_msg_parts [of t "sr ref"] by simp
  next
    case (Some c)
    with fails have "py_str (dict_get c ''status'' PyNone) \<noteq> py_str (PyBool b)"
        and "msg1 = status_mismatch_msg t b (dict_get c ''status'' PyNone)"
      by (simp_all add: assert_type_status_Some split: if_splits)
    with Some show ?thesis
      using status_mismatch_msg_parts [of b t "dict_get c ''status'' PyNone"] by simp
  qed
  have terminal: "fst (assert_type_status acc sr ref ''Ready'' False h) = Inl (PytestFail msg2) \<or>
      (\<exists>c. fst (assert_type_status acc sr ref ''Ready'' False h) = Inr () \<and>
           acc (h @ [(ref, ''Ready'')]) ref ''Ready'' = Some c \<and>
           dict_get c ''reason'' PyNone \<noteq> PyStr TERMINAL_REASON \<and>
           sublist TERMINAL_REASON msg2 \<and>
           sublist (py_str (dict_get c ''reason'' PyNone)) msg2) \<or>
      (\<exists>c m. fst (assert_type_status acc sr ref ''Ready'' False h) = Inr () \<and>
           acc (h @ [(ref, ''Ready'')]) ref ''Ready'' = Some c \<and>
           dict_get c ''reason'' PyNone = PyStr TERMINAL_REASON \<and>
           dict_get c ''message'' PyNone = PyStr m \<and> \<not> sublist s m \<and>
           sublist s msg2 \<and> sublist m msg2)"
    if fails: "fst (assert_terminal acc sr ref s h) = Inl (PytestFail msg2)"
  proof (cases "fst (assert_type_status acc sr ref ''Ready'' False h)")
    case (Inl e)
    with fails show ?thesis
      by (simp add: assert_terminal_first_fails)
  next
    case (Inr u)
    then have ok: "fst (assert_type_status acc sr ref ''Ready'' False h) = Inr ()" by simp
    show ?thesis
    proof (cases "acc (h @ [(ref, ''Ready'')]) ref ''Ready''")
      case None
      with fails show ?thesis by (simp add: assert_terminal_second_read [OF ok])
    next
      case (Some c)
      show ?thesis
      proof (cases "dict_get c ''reason'' PyNone \<noteq> PyStr TERMINAL_REASON")
        case True
        with fails Some have "msg2 = reason_mismatch_msg (dict_get c ''reason'' PyNone)"
          by (simp add: assert_terminal_second_read [OF ok])
        with Some True ok show ?thesis
          using reason_mismatch_msg_parts [of "dict_get c ''reason'' PyNone"] by simp
      next
        case False
        with fails Some obtain m where m: "dict_get c ''message'' PyNone = PyStr m"
            "\<not> sublist s m" "msg2 = message_mismatch_msg s (PyStr m)"
          by (cases "dict_get c ''message'' PyNone")
             (simp_all add: assert_terminal_second_read [OF ok] str_contains_sublist
                split: if_splits)
        with Some False ok show ?thesis
          using message_mismatch_msg_parts [of s "PyStr m"] by simp
      qed
    qed
  qed
  show ?thesis using type_status terminal by blast
qed

theorem failure_message_contents_witness:
  "fst (assert_type_status
          (snapshot_accessor
             [cond_of [(''type'', PyStr ''Ready''), (''status'', PyStr ''False''),
                       (''reason'', PyStr ''Throttled'')]])
          id ''my-db'' ''Ready'' True [])
     = Inl (PytestFail ''Expected Ready condition to have status True but found False'') \<and>
   fst (assert_terminal
          (snapshot_accessor
             [cond_of [(''type'', PyStr ''Ready''), (''status'', PyStr ''False''),
                       (''reason'', PyStr ''Throttled'')]])
          id ''my-db'' ''immutable'' [])
     = Inl (PytestFail (reason_mismatch_msg (PyStr ''Throttled''))) \<and>
   sublist ''True'' ''Expected Ready condition to have status True but found False'' \<and>
   sublist ''False'' ''Expected Ready condition to have status True but found False'' \<and>
   sublist TERMINAL_REASON (reason_mismatch_msg (PyStr ''Throttled'')) \<and>
   sublist ''Throttled'' (reason_mismatch_msg (PyStr ''Throttled''))"
proof -
  let ?c = "cond_of [(''type'', PyStr ''Ready''), (''status'', PyStr ''False''),
                     (''reason'', PyStr ''Throttled'')]"
  let ?acc = "snapshot_accessor [?c] :: string accessor"
  have status_fails: "fst (assert_type_status ?acc id ''my-db'' ''Ready'' True [])
      = Inl (PytestFail ''Expected Ready condition to have status True but found False'')"
    by (simp add: assert_type_status_def get_resource_condition_def snapshot_accessor_def
        cond_of_def dict_get_def status_mismatch_msg_def)
  have status_ok: "fst (assert_type_status ?acc id ''my-db'' ''Ready'' False []) = Inr ()"
    by (simp add: assert_type_status_def get_resource_condition_def snapshot_accessor_def
        cond_of_def dict_get_def)
  have terminal_fails: "fst (assert_terminal ?acc id ''my-db'' ''immutable'' [])
      = Inl (PytestFail (reason_mismatch_msg (PyStr ''Throttled'')))"
    by (simp add: assert_terminal_def assert_type_status_def get_resource_condition_def
        snapshot_accessor_def cond_of_def dict_get_def TERMINAL_REASON_def)
  have answers: "?acc k ''my-db'' ''Ready'' = Some ?c" for k
    by (simp add: snapshot_accessor_def cond_of_def)
  have fields: "dict_get ?c ''status'' PyNone = PyStr ''False''"
      "dict_get ?c ''reason'' PyNone = PyStr ''Throttled''"
    by (simp_all add: dict_get_def cond_of_def)
  have other_reason: "PyStr ''Throttled'' \<noteq> PyStr TERMINAL_REASON"
    by (simp add: TERMINAL_REASON_def)
  show ?thesis
    using status_fails terminal_fails status_ok other_reason
      failure_message_contents
        [where acc = ?acc and sr = id and ref = "''my-db''" and t = "''Ready''" and b = True
           and h = "[]" and s = "''immutable''"
           and ?msg1.0 = "''Expected Ready condition to have status True but found False''"
           and ?msg2.0 = "reason_mismatch_msg (PyStr ''Throttled'')"]
    by (simp add: answers fields)
qed

subsection \<open>Reads through the accessor\<close>

text \<open>
  C8, as stated: every call of \<open>assert_terminal\<close> makes two reads. On a resource without a
  \<open>Ready\<close> condition the status check fails and the call has made one read.
\<close>

theorem assert_terminal_single_read:
  "snd (assert_terminal (snapshot_accessor []) id ''my-db'' ''foo'' []) = [(''my-db'', ''Ready'')] \<and>
   length (snd (assert_terminal (snapshot_accessor []) id ''my-db'' ''foo'' [])) \<noteq> 2"
  by (simp add: assert_terminal_def assert_type_status_def get_resource_condition_def
      snapshot_accessor_def)

text \<open>
  C8, amended. \<open>assert_type_status\<close>, \<open>assert_ready_status\<close>, \<open>assert_ready\<close> and
  \<open>assert_not_ready\<close> add exactly one read to the log, of the reference and condition type
  asked for. \<open>assert_terminal\<close> adds two reads of \<open>Ready\<close> when its status check passes and
  one when that check fails. The log is the only state, and the reads before the call
  stay as they were.
\<close>

theorem reads_per_call:
  "snd (assert_type_status acc sr ref t b h) = h @ [(ref, t)] \<and>
   snd (assert_ready_status acc sr ref b h) = h @ [(ref, ''Ready'')] \<and>
   snd (assert_ready acc sr ref h) = h @ [(ref, ''Ready'')] \<and>
   snd (assert_not_ready acc sr ref h) = h @ [(ref, ''Ready'')] \<and>
   snd (assert_terminal acc sr ref s h) =
     (if fst (assert_type_status acc sr ref ''Ready'' False h) = Inr ()
      then h @ [(ref, ''Ready''), (ref, ''Ready'')]
      else h @ [(ref, ''Ready'')])"
proof -
  have terminal: "snd (assert_terminal acc sr ref s h) =
     (if fst (assert_type_status acc sr ref ''Ready'' False h) = Inr ()
      then h @ [(ref, ''Ready''), (ref, ''Ready'')]
      else h @ [(ref, ''Ready'')])"
  proof (cases "fst (assert_type_status acc sr ref ''Ready'' False h)")
    case (Inl e)
    then show ?thesis by (simp add: assert_terminal_first_fails)
  next
    case (Inr u)
    then have ok: "fst (assert_type_status acc sr ref ''Ready'' False h) = Inr ()" by simp
    show ?thesis by (simp add: assert_terminal_second_read [OF ok] ok)
  qed
  show ?thesis
    using terminal
    by (simp add: assert_ready_def assert_not_ready_def assert_ready_status_def
        snd_assert_type_status)
qed

end
